theory Spec2Isabelle
  imports Main "HOL-Library.Word" "HOL-Library.AList"
begin

section \<open>The main process of the workbench (src/main/main.ts)\<close>

text \<open>
  The functional core of \<^verbatim>\<open>main.ts\<close> is embedded function by function. Everything outside
  the process is explicit:
  \<^item> the file system below \<^verbatim>\<open>~/.solana-workbench\<close> is a value of type \<open>store\<close>;
  \<^item> the RPC calls issued, the subprocesses started and the replies sent are lists in the
    record \<open>world\<close>, each call appending to its list;
  \<^item> what the outside answers (the web3 library, the RPC endpoint, subprocesses, the
    regular-expression engine, the JSON parser) is a record \<open>env\<close> of functions, so
    every theorem holds for all answers;
  \<^item> a thrown exception or a rejected promise is \<open>Inl\<close> of an \<open>error\<close>.
  Calls to \<^verbatim>\<open>console.log\<close> have no effect on any result and are left out.
\<close>

subsection \<open>Errors and values\<close>

type_synonym bytes = "8 word list"

datatype error = ENOENT | EISDIR | EEXIST | Thrown string

text \<open>A \<^verbatim>\<open>web3.Keypair\<close>; the public key is identified with its base58 text, which is what
  \<^verbatim>\<open>toString()\<close> and the template literal of \<^verbatim>\<open>addKeypair\<close> produce.\<close>

record keypair =
  publicKey :: string
  secretKey :: bytes

record SolState =
  running :: bool
  keyId :: string

subsection \<open>The file system\<close>

text \<open>
  Two levels are tracked: whether the workbench directory exists, whether it has a
  \<^verbatim>\<open>keys\<close> directory, and the entries of that directory in enumeration order. An entry
  is what \<^verbatim>\<open>stat\<close> and \<^verbatim>\<open>readFileSync\<close> see, both of which follow symbolic links.
  Outcomes depend on this state only (no permission or I/O failures).
\<close>

datatype entry = RegularFile bytes | Directory

datatype store = NoRoot | RootOnly | RootWithKeys "(string \<times> entry) list"

datatype dirpath = WORKBENCH_DIR_PATH | KEYPAIR_DIR_PATH

text \<open>
  The result of \<^verbatim>\<open>path.join(KEYPAIR_DIR_PATH, name)\<close>. For a name that is one path component
  the path is that entry of the keys directory. Any other name (empty, \<^verbatim>\<open>.\<close>, \<^verbatim>\<open>..\<close>, or
  with a separator) is normalised by \<^verbatim>\<open>path.join\<close> to some other place; that place is not
  resolved here, and what reading or writing it does is asked of the environment.
\<close>

datatype filepath = InKeypairDir string | Unresolved string

definition path_join_KEYPAIR_DIR :: "string \<Rightarrow> filepath" where
  "path_join_KEYPAIR_DIR name =
     (if name = [] \<or> name = ''.'' \<or> name = ''..'' \<or> CHR ''/'' \<in> set name
      then Unresolved name else InKeypairDir name)"

subsection \<open>The outside world\<close>

text \<open>The type \<open>'n\<close> is the one of JavaScript numbers, whose arithmetic is not
  modelled: the amount of an airdrop is carried as it is.\<close>

datatype 'n rpc_call =
    GetEpochInfo
  | RequestAirdrop string 'n
  | ConfirmTransaction string

datatype 'j payload =
    PSolState SolState
  | PEmptyObject
  | PText string
  | PStrings "string list"
  | PNothing
  | PJson 'j

record ('j, 'n) world =
  store :: store
  sent :: "'n rpc_call list"
  spawned :: "string list"
  replies :: "(string \<times> 'j payload) list"

text \<open>
  The answers of the outside. \<open>None\<close> of an \<open>error option\<close> is success.
  \<open>String_match s filter\<close> is \<^verbatim>\<open>s.match(filter)\<close> read as a truth value (an array is
  truthy, \<^verbatim>\<open>null\<close> is not), or the exception it throws.
  \<open>LAMPORTS_PER_SOL_times sol\<close> is the product \<^verbatim>\<open>web3.LAMPORTS_PER_SOL * sol\<close> of two
  JavaScript numbers.
\<close>

record ('j, 'n) env =
  fromSecretKey :: "bytes \<Rightarrow> error + keypair"
  generate :: keypair
  new_Connection :: "error option"
  getEpochInfo :: "error option"
  LAMPORTS_PER_SOL_times :: "'n \<Rightarrow> 'n"
  requestAirdrop :: "string \<Rightarrow> 'n \<Rightarrow> error + string"
  confirmTransaction :: "string \<Rightarrow> error option"
  exec :: "string \<Rightarrow> error + (string \<times> string)"
  String_match :: "string \<Rightarrow> string \<Rightarrow> error + bool"
  JSON_parse :: "string \<Rightarrow> error + 'j"
  read_unresolved :: "store \<Rightarrow> string \<Rightarrow> error + bytes"
  write_unresolved :: "store \<Rightarrow> string \<Rightarrow> bytes \<Rightarrow> error + store"

subsection \<open>File-system calls\<close>

fun existsSync :: "store \<Rightarrow> dirpath \<Rightarrow> bool" where
  "existsSync NoRoot p = False"
| "existsSync RootOnly WORKBENCH_DIR_PATH = True"
| "existsSync RootOnly KEYPAIR_DIR_PATH = False"
| "existsSync (RootWithKeys es) p = True"

fun mkdirSync :: "store \<Rightarrow> dirpath \<Rightarrow> error + store" where
  "mkdirSync NoRoot WORKBENCH_DIR_PATH = Inr RootOnly"
| "mkdirSync NoRoot KEYPAIR_DIR_PATH = Inl ENOENT"
| "mkdirSync RootOnly WORKBENCH_DIR_PATH = Inl EEXIST"
| "mkdirSync RootOnly KEYPAIR_DIR_PATH = Inr (RootWithKeys [])"
| "mkdirSync (RootWithKeys es) p = Inl EEXIST"

text \<open>\<^verbatim>\<open>fs.promises.readdir(KEYPAIR_DIR_PATH)\<close>, the only directory that is listed.\<close>

fun readdir :: "store \<Rightarrow> error + string list" where
  "readdir (RootWithKeys es) = Inr (map fst es)"
| "readdir st = Inl ENOENT"

fun readFileSync :: "('j, 'n) env \<Rightarrow> store \<Rightarrow> filepath \<Rightarrow> error + bytes" where
  "readFileSync env st (Unresolved name) = read_unresolved env st name"
| "readFileSync env (RootWithKeys es) (InKeypairDir name) =
     (case map_of es name of
        None \<Rightarrow> Inl ENOENT
      | Some (RegularFile data) \<Rightarrow> Inr data
      | Some Directory \<Rightarrow> Inl EISDIR)"
| "readFileSync env st (InKeypairDir name) = Inl ENOENT"

text \<open>\<^verbatim>\<open>writeFileSync\<close> creates the file or replaces its content, and does not create
  directories.\<close>

fun writeFileSync :: "('j, 'n) env \<Rightarrow> store \<Rightarrow> filepath \<Rightarrow> bytes \<Rightarrow> error + store" where
  "writeFileSync env st (Unresolved name) data = write_unresolved env st name data"
| "writeFileSync env (RootWithKeys es) (InKeypairDir name) data =
     (case map_of es name of
        Some Directory \<Rightarrow> Inl EISDIR
      | _ \<Rightarrow> Inr (RootWithKeys (AList.update name (RegularFile data) es)))"
| "writeFileSync env st (InKeypairDir name) data = Inl ENOENT"

text \<open>\<^verbatim>\<open>(await fs.promises.stat(keyPath)).isFile()\<close>. For an unresolved path the answer is
  read off what reading the path does.\<close>

fun stat_isFile :: "('j, 'n) env \<Rightarrow> store \<Rightarrow> filepath \<Rightarrow> error + bool" where
  "stat_isFile env st (Unresolved name) =
     (case read_unresolved env st name of
        Inr data \<Rightarrow> Inr True
      | Inl EISDIR \<Rightarrow> Inr False
      | Inl e \<Rightarrow> Inl e)"
| "stat_isFile env (RootWithKeys es) (InKeypairDir name) =
     (case map_of es name of
        None \<Rightarrow> Inl ENOENT
      | Some (RegularFile data) \<Rightarrow> Inr True
      | Some Directory \<Rightarrow> Inr False)"
| "stat_isFile env st (InKeypairDir name) = Inl ENOENT"

subsection \<open>JavaScript built-ins\<close>

text \<open>A promise is an object, and every object is truthy, whatever it settles to.\<close>

datatype 'a promise = Promise 'a

fun truthy :: "'a promise \<Rightarrow> bool" where
  "truthy (Promise r) = True"

text \<open>\<^verbatim>\<open>Promise.all\<close> over promises that are settled already: the values in order, or the
  first rejection in order.\<close>

fun Promise_all :: "(error + 'a) list \<Rightarrow> error + 'a list" where
  "Promise_all [] = Inr []"
| "Promise_all (Inl e # ps) = Inl e"
| "Promise_all (Inr v # ps) =
     (case Promise_all ps of Inl e \<Rightarrow> Inl e | Inr vs \<Rightarrow> Inr (v # vs))"

text \<open>\<^verbatim>\<open>s.split('\n')\<close>: never empty; the empty string gives one empty line.\<close>

fun split_nl :: "string \<Rightarrow> string list" where
  "split_nl [] = [[]]"
| "split_nl (c # cs) =
     (if c = CHR 0x0A then [] # split_nl cs
      else (case split_nl cs of [] \<Rightarrow> [[c]] | l # ls \<Rightarrow> (c # l) # ls))"

text \<open>\<^verbatim>\<open>lines.join('\n')\<close>.\<close>

fun join_nl :: "string list \<Rightarrow> string" where
  "join_nl [] = []"
| "join_nl [l] = l"
| "join_nl (l # m # ls) = l @ CHR 0x0A # join_nl (m # ls)"

text \<open>\<^verbatim>\<open>xs.slice(start)\<close>: a negative start counts from the end, and the start is clamped
  to the array.\<close>

definition slice :: "'a list \<Rightarrow> int \<Rightarrow> 'a list" where
  "slice xs start =
     (let len = int (length xs);
          k = (if start < 0 then max (len + start) 0 else min start len)
      in drop (nat k) xs)"

text \<open>\<^verbatim>\<open>xs.filter(p)\<close> for a callback that may throw: the first exception ends the call.\<close>

fun filter_throwing :: "('a \<Rightarrow> error + bool) \<Rightarrow> 'a list \<Rightarrow> error + 'a list" where
  "filter_throwing p [] = Inr []"
| "filter_throwing p (x # xs) =
     (case p x of
        Inl e \<Rightarrow> Inl e
      | Inr b \<Rightarrow>
          (case filter_throwing p xs of
             Inl e \<Rightarrow> Inl e
           | Inr ys \<Rightarrow> Inr (if b then x # ys else ys)))"

subsection \<open>Start-up: the store directories (lines 27 to 33)\<close>

definition startup :: "store \<Rightarrow> error + store" where
  "startup st =
     (if \<not> existsSync st WORKBENCH_DIR_PATH then
        (case mkdirSync st WORKBENCH_DIR_PATH of
           Inl e \<Rightarrow> Inl e
         | Inr st1 \<Rightarrow> mkdirSync st1 KEYPAIR_DIR_PATH)
      else Inr st)"

subsection \<open>connectSOL\<close>

text \<open>Constructing a \<^verbatim>\<open>web3.Connection\<close> sends nothing; \<^verbatim>\<open>getEpochInfo\<close> is one RPC call.\<close>

definition connectSOL :: "('j, 'n) env \<Rightarrow> ('j, 'n) world \<Rightarrow> ('j, 'n) world \<times> (error + SolState)" where
  "connectSOL env w =
     (let ret = \<lparr>running = False, keyId = []\<rparr> in
      case new_Connection env of
        Some error \<Rightarrow> (w, Inr ret)
      | None \<Rightarrow>
          (let w1 = w\<lparr>sent := sent w @ [GetEpochInfo]\<rparr> in
           case getEpochInfo env of
             Some error \<Rightarrow> (w1, Inr ret)
           | None \<Rightarrow> (w1, Inr (ret\<lparr>running := True\<rparr>))))"

subsection \<open>The keypair store\<close>

definition localKeypair :: "('j, 'n) env \<Rightarrow> store \<Rightarrow> string \<Rightarrow> error + keypair" where
  "localKeypair env st pubKey =
     (let keyPath = path_join_KEYPAIR_DIR pubKey in
      case readFileSync env st keyPath of
        Inl e \<Rightarrow> Inl e
      | Inr data \<Rightarrow> fromSecretKey env data)"

text \<open>
  The callback given to \<^verbatim>\<open>filter\<close> is an \<^verbatim>\<open>async\<close> function: \<^verbatim>\<open>filter\<close> gets the promise it
  returns, not the boolean the promise settles to, and tests the promise for truthiness.
  The callback given to the second \<^verbatim>\<open>map\<close> has no \<^verbatim>\<open>await\<close>, so each of its promises is
  settled when \<^verbatim>\<open>Promise.all\<close> sees it.
\<close>

definition keypairs :: "('j, 'n) env \<Rightarrow> store \<Rightarrow> error + string list" where
  "keypairs env st =
     (case readdir st of
        Inl e \<Rightarrow> Inl e
      | Inr keypairFiles \<Rightarrow>
          (let web3KeyPromises =
                 map (\<lambda>keyPath.
                        case readFileSync env st keyPath of
                          Inl e \<Rightarrow> Inl e
                        | Inr data \<Rightarrow> fromSecretKey env data)
                   (filter (\<lambda>keyPath. truthy (Promise (stat_isFile env st keyPath)))
                      (map (\<lambda>key. path_join_KEYPAIR_DIR key) keypairFiles))
           in case Promise_all web3KeyPromises of
                Inl e \<Rightarrow> Inl e
              | Inr web3Keys \<Rightarrow> Inr (map publicKey web3Keys)))"

definition addKeypair :: "('j, 'n) env \<Rightarrow> ('j, 'n) world \<Rightarrow> ('j, 'n) world \<times> (error + string list)" where
  "addKeypair env w =
     (let kp = generate env;
          kpPath = path_join_KEYPAIR_DIR (publicKey kp)
      in case writeFileSync env (store w) kpPath (secretKey kp) of
           Inl e \<Rightarrow> (w, Inl e)
         | Inr st1 \<Rightarrow>
             (let w1 = w\<lparr>store := st1\<rparr> in (w1, keypairs env (store w1))))"

subsection \<open>airdropTokens\<close>

definition airdropTokens ::
  "('j, 'n) env \<Rightarrow> string \<Rightarrow> 'n \<Rightarrow> ('j, 'n) world \<Rightarrow> ('j, 'n) world \<times> (error + unit)"
  where
  "airdropTokens env pubKey sol w =
     (case new_Connection env of
        Some e \<Rightarrow> (w, Inl e)
      | None \<Rightarrow>
          (case localKeypair env (store w) pubKey of
             Inl e \<Rightarrow> (w, Inl e)
           | Inr to \<Rightarrow>
               (let w1 = w\<lparr>sent := sent w @
                              [RequestAirdrop (publicKey to) (LAMPORTS_PER_SOL_times env sol)]\<rparr>
                in case requestAirdrop env (publicKey to) (LAMPORTS_PER_SOL_times env sol) of
                     Inl e \<Rightarrow> (w1, Inl e)
                   | Inr airdropSignature \<Rightarrow>
                       (let w2 = w1\<lparr>sent := sent w1 @
                                       [ConfirmTransaction airdropSignature]\<rparr>
                        in case confirmTransaction env airdropSignature of
                             Some e \<Rightarrow> (w2, Inl e)
                           | None \<Rightarrow> (w2, Inr ())))))"

subsection \<open>The validator\<close>


definition docker_logs :: string where
  "docker_logs = ''docker logs --tail 10000 solana-test-validator''"


definition MAX_DISPLAY_LINES :: int where
  "MAX_DISPLAY_LINES = 30"

definition validatorLogs :: "('j, 'n) env \<Rightarrow> string \<Rightarrow> ('j, 'n) world \<Rightarrow> ('j, 'n) world \<times> (error + string)" where
  "validatorLogs env filter_pat w =
     (let w1 = w\<lparr>spawned := spawned w @ [docker_logs]\<rparr> in
      case exec env docker_logs of
        Inl e \<Rightarrow> (w1, Inl e)
      | Inr (stdout, stderr) \<Rightarrow>
          (case filter_throwing (\<lambda>s. String_match env s filter_pat) (split_nl stderr) of
             Inl e \<Rightarrow> (w1, Inl e)
           | Inr lines \<Rightarrow>
               (w1, Inr (join_nl
                  (slice lines (max (int (length lines) - MAX_DISPLAY_LINES) 1))))))"

subsection \<open>The command handlers (lines 137 to 173)\<close>




subsection \<open>Public identifiers\<close>

text \<open>A public identifier is the base58 text of a public key: not empty, and over the
  base58 alphabet, which has no dot and no path separator.\<close>

definition base58_alphabet :: string where
  "base58_alphabet = ''123456789ABCDEFGHJKLMNPQRSTUVWXYZabcdefghijkmnopqrstuvwxyz''"

definition is_base58 :: "string \<Rightarrow> bool" where
  "is_base58 s = (s \<noteq> [] \<and> list_all (\<lambda>c. c \<in> set base58_alphabet) s)"

subsection \<open>A sample environment\<close>

text \<open>
  Concrete answers of the outside, for running the functions above on examples: a library
  with one valid secret key, whole amounts, an endpoint that accepts everything, a subprocess that
  prints \<open>log\<close> on standard error, and a matcher for filters without metacharacters,
  for which a regular-expression search is a search for the text itself.
\<close>

fun contains :: "string \<Rightarrow> string \<Rightarrow> bool" where
  "contains p [] = (p = [])"
| "contains p (c # cs) = (take (length p) (c # cs) = p \<or> contains p cs)"

definition sample_keypair :: keypair where
  "sample_keypair = \<lparr>publicKey = ''Abc'', secretKey = [1, 2, 3, 4]\<rparr>"

definition sample_env :: "string \<Rightarrow> (unit, int) env" where
  "sample_env log =
     \<lparr>fromSecretKey = (\<lambda>d. if d = [1, 2, 3, 4] then Inr sample_keypair
                            else Inl (Thrown ''bad secret key size'')),
      generate = sample_keypair,
      new_Connection = None,
      getEpochInfo = None,
      LAMPORTS_PER_SOL_times = (\<lambda>sol. 1000000000 * sol),
      requestAirdrop = (\<lambda>pk n. Inr ''sig''),
      confirmTransaction = (\<lambda>s. None),
      exec = (\<lambda>cmd. Inr ([], log)),
      String_match = (\<lambda>s f. Inr (contains f s)),
      JSON_parse = (\<lambda>s. Inl (Thrown ''SyntaxError'')),
      read_unresolved = (\<lambda>st n. Inl ENOENT),
      write_unresolved = (\<lambda>st n d. Inl ENOENT)\<rparr>"

definition sample_world :: "(unit, int) world" where
  "sample_world = \<lparr>store = RootWithKeys [], sent = [], spawned = [], replies = []\<rparr>"

text \<open>A log of 55 lines: five lines with \<^verbatim>\<open>ERROR\<close>, each after ten lines without.\<close>

definition sample_log :: string where
  "sample_log =
     join_nl (concat (map (\<lambda>n. replicate 10 ''ok'' @ [''ERROR '' @ n])
                        [''1'', ''2'', ''3'', ''4'', ''5'']))"

section \<open>Properties\<close>

subsection \<open>Auxiliary facts\<close>

lemma slash_not_base58: "CHR ''/'' \<notin> set base58_alphabet"
  by (simp add: base58_alphabet_def)

lemma dot_not_base58: "CHR ''.'' \<notin> set base58_alphabet"
  by (simp add: base58_alphabet_def)

lemma base58_in_keypair_dir:
  assumes "is_base58 s"
  shows "path_join_KEYPAIR_DIR s = InKeypairDir s"
proof -
  from assms have ne: "s \<noteq> []" and al: "\<forall>c \<in> set s. c \<in> set base58_alphabet"
    by (simp_all add: is_base58_def list_all_iff)
  from al have "CHR ''/'' \<notin> set s" and d: "CHR ''.'' \<notin> set s"
    using slash_not_base58 dot_not_base58 by blast+
  moreover from d have "s \<noteq> ''.''" and "s \<noteq> ''..''" by auto
  ultimately show ?thesis using ne by (simp add: path_join_KEYPAIR_DIR_def)
qed

lemma is_base58_sample: "is_base58 ''Abc''"
  by (simp add: is_base58_def base58_alphabet_def)

lemma Promise_all_Inr: "Promise_all ps = Inr vs \<Longrightarrow> ps = map Inr vs"
  by (induction ps arbitrary: vs rule: Promise_all.induct) (auto split: sum.splits)

lemma readFileSync_after_write:
  assumes "writeFileSync env st (InKeypairDir name) data = Inr st1"
  shows "readFileSync env st1 (InKeypairDir name) = Inr data"
  using assms
  by (cases st) (auto simp: update_conv' split: option.splits entry.splits)

lemma readdir_after_write:
  assumes "writeFileSync env st (InKeypairDir name) data = Inr st1"
  shows "\<exists>names. readdir st1 = Inr names \<and> name \<in> set names"
  using assms
  by (cases st) (auto simp: update_keys split: option.splits entry.splits)

lemma keypairs_lists_readable:
  assumes "keypairs env st = Inr ids"
      and "readdir st = Inr names" and "name \<in> set names"
      and "path_join_KEYPAIR_DIR name = InKeypairDir name"
      and "readFileSync env st (InKeypairDir name) = Inr data"
      and "fromSecretKey env data = Inr kp"
  shows "publicKey kp \<in> set ids"
proof -
  let ?load = "\<lambda>keyPath. case readFileSync env st keyPath of
                  Inl e \<Rightarrow> Inl e | Inr data \<Rightarrow> fromSecretKey env data"
  from assms(1,2) obtain web3Keys where
    all: "Promise_all (map ?load (map path_join_KEYPAIR_DIR names)) = Inr web3Keys"
    and ids: "ids = map publicKey web3Keys"
    by (auto simp: keypairs_def split: sum.splits)
  from Promise_all_Inr [OF all]
  have "map ?load (map path_join_KEYPAIR_DIR names) = map Inr web3Keys" .
  moreover from assms(3,4,5,6)
  have "Inr kp \<in> set (map ?load (map path_join_KEYPAIR_DIR names))"
    by (force simp: image_iff)
  ultimately have "kp \<in> set web3Keys" by auto
  with ids show ?thesis by auto
qed

lemma filter_throwing_Inr:
  "filter_throwing p xs = Inr ys \<Longrightarrow> ys = filter (\<lambda>x. p x = Inr True) xs"
  by (induction xs arbitrary: ys) (auto split: sum.splits if_splits)

lemma split_nl_no_newline: "l \<in> set (split_nl s) \<Longrightarrow> CHR 0x0A \<notin> set l"
  by (induction s arbitrary: l) (auto split: list.splits if_splits)

lemma split_nl_append:
  "CHR 0x0A \<notin> set l \<Longrightarrow> split_nl (l @ CHR 0x0A # s) = l # split_nl s"
  by (induction l) (auto split: list.splits)

lemma split_nl_line: "CHR 0x0A \<notin> set l \<Longrightarrow> split_nl l = [l]"
  by (induction l) (auto split: list.splits)

lemma split_join_nl:
  "ls \<noteq> [] \<Longrightarrow> \<forall>l \<in> set ls. CHR 0x0A \<notin> set l \<Longrightarrow> split_nl (join_nl ls) = ls"
  by (induction ls rule: join_nl.induct) (auto simp: split_nl_append split_nl_line)

lemma slice_subset: "set (slice xs k) \<subseteq> set xs"
  by (auto simp: slice_def Let_def dest: in_set_dropD)

lemma slice_display_length:
  "length (slice xs (max (int (length xs) - MAX_DISPLAY_LINES) 1)) \<le> 30"
  by (auto simp: slice_def Let_def MAX_DISPLAY_LINES_def)

lemma split_sample_log:
  "split_nl sample_log =
     concat (map (\<lambda>n. replicate 10 ''ok'' @ [''ERROR '' @ n]) [''1'', ''2'', ''3'', ''4'', ''5''])"
  unfolding sample_log_def by (rule split_join_nl) (auto simp: numeral_nat)

lemma validatorLogs_sample_log:
  "validatorLogs (sample_env sample_log) ''ERROR'' sample_world =
     (sample_world\<lparr>spawned := [docker_logs]\<rparr>,
      Inr (join_nl [''ERROR 2'', ''ERROR 3'', ''ERROR 4'', ''ERROR 5'']))"
  by (simp add: validatorLogs_def split_sample_log sample_env_def numeral_nat slice_def
      MAX_DISPLAY_LINES_def sample_world_def)













subsection \<open>The cluster probe\<close>

text \<open>
  Claim C5. \<^verbatim>\<open>connectSOL\<close> never raises: for every answer of the outside it returns a
  state, whose \<open>running\<close> is true exactly when both the construction of the connection
  and the status call succeeded, and whose \<open>keyId\<close> is the empty string.
\<close>

theorem connectSOL_never_raises:
  "snd (connectSOL env w) =
     Inr \<lparr>running = (new_Connection env = None \<and> getEpochInfo env = None), keyId = []\<rparr>"
  by (simp add: connectSOL_def Let_def split: option.splits)

subsection \<open>The keypair store\<close>

text \<open>
  Claim C6, at the state the code misses. When the workbench directory exists and its
  \<^verbatim>\<open>keys\<close> directory does not, start-up creates nothing: the guard tests the workbench
  directory only, and the keys directory is still missing afterwards.
\<close>

theorem startup_leaves_keys_missing:
  "startup RootOnly = Inr RootOnly \<and> \<not> existsSync RootOnly KEYPAIR_DIR_PATH"
  by (simp add: startup_def)

text \<open>
  Claim C2, at an input where it fails. With one valid key file and one subdirectory in the
  keys directory, \<^verbatim>\<open>keypairs\<close> does not return the identifier of the file: the
  subdirectory is not filtered out, reading it fails, and the whole listing is rejected.
\<close>

theorem keypairs_rejects_on_subdirectory:
  "keypairs (sample_env [])
     (RootWithKeys [(''Abc'', RegularFile [1, 2, 3, 4]), (''sub'', Directory)]) = Inl EISDIR"
  by (simp add: keypairs_def sample_env_def path_join_KEYPAIR_DIR_def sample_keypair_def)

text \<open>
  Claim C7. Let the library rebuild a generated keypair from its secret key, and let the
  public identifier of the generated keypair be base58 text. Whenever \<^verbatim>\<open>addKeypair\<close>
  returns a list, the identifier of the generated keypair is in that list, the file of
  that name holds the secret key that was written, and \<^verbatim>\<open>localKeypair\<close> on the identifier
  succeeds with a keypair that has those secret bytes.
\<close>

theorem generated_keypair_loads:
  assumes lib: "fromSecretKey env (secretKey (generate env)) = Inr (generate env)"
      and b58: "is_base58 (publicKey (generate env))"
      and add: "addKeypair env w = (w1, Inr ids)"
  shows "publicKey (generate env) \<in> set ids \<and>
         readFileSync env (store w1) (path_join_KEYPAIR_DIR (publicKey (generate env))) =
           Inr (secretKey (generate env)) \<and>
         (\<exists>k. localKeypair env (store w1) (publicKey (generate env)) = Inr k \<and>
              secretKey k = secretKey (generate env))"
proof -
  let ?kp = "generate env"
  have pj: "path_join_KEYPAIR_DIR (publicKey ?kp) = InKeypairDir (publicKey ?kp)"
    using b58 by (rule base58_in_keypair_dir)
  from add pj obtain st1 where
    wr: "writeFileSync env (store w) (InKeypairDir (publicKey ?kp)) (secretKey ?kp) = Inr st1"
    and w1: "w1 = w\<lparr>store := st1\<rparr>" and ks: "keypairs env st1 = Inr ids"
    by (auto simp: addKeypair_def Let_def split: sum.splits)
  have rd: "readFileSync env st1 (InKeypairDir (publicKey ?kp)) = Inr (secretKey ?kp)"
    using wr by (rule readFileSync_after_write)
  from readdir_after_write [OF wr] obtain names where
    "readdir st1 = Inr names" "publicKey ?kp \<in> set names" by blast
  then have "publicKey ?kp \<in> set ids"
    using keypairs_lists_readable [OF ks _ _ pj rd lib] by blast
  moreover have "localKeypair env st1 (publicKey ?kp) = Inr ?kp"
    using rd lib pj by (simp add: localKeypair_def)
  ultimately show ?thesis using rd pj w1 by simp
qed

theorem generated_keypair_loads_witness:
  "fromSecretKey (sample_env []) (secretKey (generate (sample_env []))) =
     Inr (generate (sample_env [])) \<and>
   is_base58 (publicKey (generate (sample_env []))) \<and>
   addKeypair (sample_env []) sample_world =
     (sample_world\<lparr>store := RootWithKeys [(''Abc'', RegularFile [1, 2, 3, 4])]\<rparr>,
      Inr [''Abc'']) \<and>
   (publicKey (generate (sample_env [])) \<in> set [''Abc''] \<and>
    readFileSync (sample_env [])
      (store (sample_world\<lparr>store := RootWithKeys [(''Abc'', RegularFile [1, 2, 3, 4])]\<rparr>))
      (path_join_KEYPAIR_DIR (publicKey (generate (sample_env [])))) =
      Inr (secretKey (generate (sample_env []))) \<and>
    (\<exists>k. localKeypair (sample_env [])
           (store (sample_world\<lparr>store := RootWithKeys [(''Abc'', RegularFile [1, 2, 3, 4])]\<rparr>))
           (publicKey (generate (sample_env []))) = Inr k \<and>
         secretKey k = secretKey (generate (sample_env []))))"
proof -
  have h1: "fromSecretKey (sample_env []) (secretKey (generate (sample_env []))) =
              Inr (generate (sample_env []))"
    by (simp add: sample_env_def sample_keypair_def)
  have h2: "is_base58 (publicKey (generate (sample_env [])))"
    by (simp add: sample_env_def sample_keypair_def is_base58_sample)
  have h3: "addKeypair (sample_env []) sample_world =
              (sample_world\<lparr>store := RootWithKeys [(''Abc'', RegularFile [1, 2, 3, 4])]\<rparr>,
               Inr [''Abc''])"
    by (simp add: addKeypair_def keypairs_def sample_env_def sample_keypair_def
        sample_world_def path_join_KEYPAIR_DIR_def)
  show ?thesis
    by (intro conjI h1 h2 h3 conjunct1 [OF generated_keypair_loads [OF h1 h2 h3]]
        conjunct1 [OF conjunct2 [OF generated_keypair_loads [OF h1 h2 h3]]]
        conjunct2 [OF conjunct2 [OF generated_keypair_loads [OF h1 h2 h3]]])
qed

subsection \<open>The funding operation\<close>

text \<open>
  Claim C8. For every public identifier (base58 text) for which the keys directory has no
  regular file, \<^verbatim>\<open>airdropTokens\<close> fails and leaves the world as it was: no RPC call has
  been sent. When the connection object could be constructed, the failure is the one of
  reading the file.
\<close>

theorem airdrop_missing_keypair:
  assumes b58: "is_base58 pubKey"
      and nofile: "stat_isFile env (store w) (InKeypairDir pubKey) \<noteq> Inr True"
  shows "\<exists>e. airdropTokens env pubKey sol w = (w, Inl e) \<and>
             (new_Connection env = None \<longrightarrow> e = ENOENT \<or> e = EISDIR)"
proof -
  have pj: "path_join_KEYPAIR_DIR pubKey = InKeypairDir pubKey"
    using b58 by (rule base58_in_keypair_dir)
  have "readFileSync env (store w) (InKeypairDir pubKey) = Inl ENOENT \<or>
        readFileSync env (store w) (InKeypairDir pubKey) = Inl EISDIR"
    using nofile by (cases "store w") (auto split: option.splits entry.splits)
  then have "localKeypair env (store w) pubKey = Inl ENOENT \<or>
             localKeypair env (store w) pubKey = Inl EISDIR"
    using pj by (auto simp: localKeypair_def)
  then show ?thesis
    by (auto simp: airdropTokens_def split: option.splits)
qed

theorem airdrop_missing_keypair_witness:
  "is_base58 ''Abc'' \<and>
   stat_isFile (sample_env []) (store sample_world) (InKeypairDir ''Abc'') \<noteq> Inr True \<and>
   (\<exists>e. airdropTokens (sample_env []) ''Abc'' 1 sample_world = (sample_world, Inl e) \<and>
        (new_Connection (sample_env []) = None \<longrightarrow> e = ENOENT \<or> e = EISDIR))"
proof -
  have h1: "is_base58 ''Abc''"
    by (rule is_base58_sample)
  have h2: "stat_isFile (sample_env []) (store sample_world) (InKeypairDir ''Abc'') \<noteq> Inr True"
    by (simp add: sample_world_def)
  show ?thesis
    by (intro conjI h1 h2 airdrop_missing_keypair [OF h1 h2])
qed

subsection \<open>The validator logs\<close>

text \<open>
  Claim C3. Whenever \<^verbatim>\<open>validatorLogs\<close> returns a text, the text has at most 30 lines, and
  unless it is empty every one of its lines matches the filter.
\<close>

theorem validatorLogs_at_most_30_matching:
  assumes "validatorLogs env f w = (w1, Inr text)"
  shows "length (split_nl text) \<le> 30 \<and>
         (text \<noteq> [] \<longrightarrow> (\<forall>l \<in> set (split_nl text). String_match env l f = Inr True))"
proof -
  from assms obtain out err lines where
    fl: "filter_throwing (\<lambda>s. String_match env s f) (split_nl err) = Inr lines"
    and res: "text = join_nl (slice lines (max (int (length lines) - MAX_DISPLAY_LINES) 1))"
    by (auto simp: validatorLogs_def Let_def split: sum.splits prod.splits)
  let ?shown = "slice lines (max (int (length lines) - MAX_DISPLAY_LINES) 1)"
  from filter_throwing_Inr [OF fl]
  have lines: "lines = filter (\<lambda>s. String_match env s f = Inr True) (split_nl err)" .
  have sub: "set ?shown \<subseteq> set lines" by (rule slice_subset)
  have nl: "\<forall>l \<in> set ?shown. CHR 0x0A \<notin> set l"
    using sub lines split_nl_no_newline by fastforce
  have ok: "\<forall>l \<in> set ?shown. String_match env l f = Inr True"
    using sub lines by auto
  show ?thesis
  proof (cases "?shown = []")
    case True
    then show ?thesis using res by simp
  next
    case False
    then have "split_nl text = ?shown"
      using nl res by (simp add: split_join_nl)
    then show ?thesis using ok slice_display_length [of lines] by simp
  qed
qed

theorem validatorLogs_at_most_30_matching_witness:
  "validatorLogs (sample_env sample_log) ''ERROR'' sample_world =
     (sample_world\<lparr>spawned := [docker_logs]\<rparr>,
      Inr (join_nl [''ERROR 2'', ''ERROR 3'', ''ERROR 4'', ''ERROR 5''])) \<and>
   join_nl [''ERROR 2'', ''ERROR 3'', ''ERROR 4'', ''ERROR 5''] \<noteq> [] \<and>
   length (split_nl (join_nl [''ERROR 2'', ''ERROR 3'', ''ERROR 4'', ''ERROR 5''])) \<le> 30 \<and>
   list_all (\<lambda>l. String_match (sample_env sample_log) l ''ERROR'' = Inr True)
     (split_nl (join_nl [''ERROR 2'', ''ERROR 3'', ''ERROR 4'', ''ERROR 5'']))"
proof -
  have h: "validatorLogs (sample_env sample_log) ''ERROR'' sample_world =
     (sample_world\<lparr>spawned := [docker_logs]\<rparr>,
      Inr (join_nl [''ERROR 2'', ''ERROR 3'', ''ERROR 4'', ''ERROR 5'']))"
    by (rule validatorLogs_sample_log)
  have ne: "join_nl [''ERROR 2'', ''ERROR 3'', ''ERROR 4'', ''ERROR 5''] \<noteq> []"
    by simp
  from validatorLogs_at_most_30_matching [OF h] ne
  have "list_all (\<lambda>l. String_match (sample_env sample_log) l ''ERROR'' = Inr True)
     (split_nl (join_nl [''ERROR 2'', ''ERROR 3'', ''ERROR 4'', ''ERROR 5'']))"
    unfolding list_all_iff by blast
  then show ?thesis
    by (intro conjI h ne conjunct1 [OF validatorLogs_at_most_30_matching [OF h]])
qed

text \<open>
  Claim C4, at the input of its scenario. The log has 55 lines, of which exactly five
  match \<^verbatim>\<open>ERROR\<close>. \<^verbatim>\<open>validatorLogs\<close> returns four of them: the slice starts at index 1 at
  least, so the first matching line is dropped.
\<close>

theorem validatorLogs_drops_first_match:
  "length (split_nl sample_log) = 55 \<and>
   filter (contains ''ERROR'') (split_nl sample_log) =
     [''ERROR 1'', ''ERROR 2'', ''ERROR 3'', ''ERROR 4'', ''ERROR 5''] \<and>
   snd (validatorLogs (sample_env sample_log) ''ERROR'' sample_world) =
     Inr (join_nl [''ERROR 2'', ''ERROR 3'', ''ERROR 4'', ''ERROR 5''])"
  by (simp add: validatorLogs_sample_log split_sample_log numeral_nat)

text \<open>
  Claim C9. The result of \<^verbatim>\<open>validatorLogs\<close> does not depend on what the subprocess wrote to
  standard output: two runs that differ in the standard output only give the same result.
\<close>

theorem validatorLogs_ignores_stdout:
  "validatorLogs (env\<lparr>exec := \<lambda>cmd. Inr (stdout1, stderr)\<rparr>) f w =
   validatorLogs (env\<lparr>exec := \<lambda>cmd. Inr (stdout2, stderr)\<rparr>) f w"
  by (simp add: validatorLogs_def)

subsection \<open>The command handlers\<close>



end
